theory Spec2Isabelle
  imports Complex_Main "HOL-Library.Monad_Syntax"
begin

section \<open>Numbers, vectors and quaternions\<close>

text \<open>
  The program is TypeScript; every number in it is an IEEE double.  The embedding takes
  numbers as reals, so each statement below is about exact arithmetic: rounding and
  overflow are outside the model.  JavaScript never raises on arithmetic: a division by
  zero or a power outside its domain yields an infinity or NaN, and the run goes on with
  it.  The reals have no such values, so an operation that can produce one returns an
  \<open>option\<close>, and \<open>None\<close> reads "the source computes a non-finite number here".  No
  proof relies on HOL's \<open>x / 0 = 0\<close>.

  \<open>Vector3\<close> and \<open>Quaternion\<close> are classes of the Babylon.js math library, which the
  program imports.  Their operations are written out here with the library's formulas.
\<close>

datatype vector3 = Vector3 (vx: real) (vy: real) (vz: real)

datatype quaternion = Quaternion (qx: real) (qy: real) (qz: real) (qw: real)

definition Zero :: vector3 where
  "Zero = Vector3 0 0 0"

definition Up :: vector3 where
  "Up = Vector3 0 1 0"

fun scale :: "vector3 \<Rightarrow> real \<Rightarrow> vector3" where
  "scale (Vector3 a b c) s = Vector3 (a * s) (b * s) (c * s)"

fun add :: "vector3 \<Rightarrow> vector3 \<Rightarrow> vector3" where
  "add (Vector3 a b c) (Vector3 d e f) = Vector3 (a + d) (b + e) (c + f)"

fun subtract :: "vector3 \<Rightarrow> vector3 \<Rightarrow> vector3" where
  "subtract (Vector3 a b c) (Vector3 d e f) = Vector3 (a - d) (b - e) (c - f)"

fun Dot :: "vector3 \<Rightarrow> vector3 \<Rightarrow> real" where
  "Dot (Vector3 a b c) (Vector3 d e f) = a * d + b * e + c * f"

fun Cross :: "vector3 \<Rightarrow> vector3 \<Rightarrow> vector3" where
  "Cross (Vector3 a b c) (Vector3 d e f) =
     Vector3 (b * f - c * e) (c * d - a * f) (a * e - b * d)"

fun length_vec :: "vector3 \<Rightarrow> real" where
  "length_vec (Vector3 a b c) = sqrt (a * a + b * b + c * c)"

definition Distance :: "vector3 \<Rightarrow> vector3 \<Rightarrow> real" where
  "Distance p q = length_vec (subtract p q)"

text \<open>
  \<open>normalize\<close> divides by the length, except that the library returns the vector as it
  is when its length is 0 or 1.
\<close>

definition normalize_vec :: "vector3 \<Rightarrow> vector3" where
  "normalize_vec v =
     (let len = length_vec v in
      if len = 0 \<or> len = 1 then v else scale v (1 / len))"

text \<open>
  Division of doubles: \<open>None\<close> for a zero divisor, where JavaScript yields an infinity
  or NaN.
\<close>

definition divide_js :: "real \<Rightarrow> real \<Rightarrow> real option" where
  "divide_js a b = (if b = 0 then None else Some (a / b))"

text \<open>
  \<open>Math.pow\<close> on finite arguments: 1 for a zero exponent, the real power for a positive
  base, 0 for a zero base and a positive exponent, the integer power for a negative base
  and an integer exponent.  It is an infinity for a zero base with a negative exponent
  and NaN for a negative base with a fractional exponent: \<open>None\<close>.
\<close>

definition Math_pow :: "real \<Rightarrow> real \<Rightarrow> real option" where
  "Math_pow b e =
     (if e = 0 then Some 1
      else if 0 < b then Some (b powr e)
      else if b = 0 then (if 0 < e then Some 0 else None)
      else if e = of_int \<lfloor>e\<rfloor> then Some (b powi \<lfloor>e\<rfloor>)
      else None)"

definition Identity :: quaternion where
  "Identity = Quaternion 0 0 0 1"

text \<open>
  \<open>Quaternion.RotationAxis(axis, angle)\<close> is \<open>(sin (angle / 2) \<cdot> axis / |axis|,
  cos (angle / 2))\<close>.  The library divides by the length of the axis (its older
  releases normalise the axis first, which is the same for an axis that is not zero);
  an axis of length zero is a zero divisor.
\<close>

definition RotationAxis :: "vector3 \<Rightarrow> real \<Rightarrow> quaternion option" where
  "RotationAxis axis angle =
     do {
       sinByLength \<leftarrow> divide_js (sin (angle / 2)) (length_vec axis);
       Some (Quaternion (vx axis * sinByLength) (vy axis * sinByLength)
               (vz axis * sinByLength) (cos (angle / 2)))
     }"

text \<open>\<open>q.multiply(q1)\<close>: the Hamilton product, \<open>q\<close> on the left.\<close>

fun multiply :: "quaternion \<Rightarrow> quaternion \<Rightarrow> quaternion" where
  "multiply (Quaternion x y z w) (Quaternion x1 y1 z1 w1) =
     Quaternion (x * w1 + y * z1 - z * y1 + w * x1)
                (- x * z1 + y * w1 + z * x1 + w * y1)
                (x * y1 - y * x1 + z * w1 + w * z1)
                (- x * x1 - y * y1 - z * z1 + w * w1)"

text \<open>
  \<open>v.rotateByQuaternionToRef(q, result)\<close>: with \<open>t = 2 (q \<times> v)\<close> the result is
  \<open>v + w t + q \<times> t\<close>.
\<close>

fun rotateByQuaternion :: "vector3 \<Rightarrow> quaternion \<Rightarrow> vector3" where
  "rotateByQuaternion (Vector3 a b c) (Quaternion x y z w) =
     (let tx = 2 * (y * c - z * b);
          ty = 2 * (z * a - x * c);
          tz = 2 * (x * b - y * a)
      in Vector3 (a + w * tx + y * tz - z * ty)
                 (b + w * ty + z * tx - x * tz)
                 (c + w * tz + x * ty - y * tx))"

section \<open>CollisionPhysics\<close>

record PhysicsBody =
  velocity :: vector3
  mass :: real
  position :: vector3

record CollisionResult =
  body1NewVelocity :: vector3
  body2NewVelocity :: vector3
  impulse :: vector3
  shouldSeparate :: bool

record CollisionPhysics =
  restitution :: real
  staticObjectDamping :: real
  momentumFriction :: real
  momentumThreshold :: real

text \<open>The constructor called with no configuration: every field takes its default.\<close>

definition default_physics :: CollisionPhysics where
  "default_physics =
     \<lparr>restitution = 3 / 10, staticObjectDamping = 4 / 10,
      momentumFriction = 4 / 10, momentumThreshold = 5 / 100\<rparr>"

definition calculateStaticCollision ::
  "CollisionPhysics \<Rightarrow> PhysicsBody \<Rightarrow> vector3 \<Rightarrow> vector3" where
  "calculateStaticCollision this body collisionNormal =
     (let v = velocity body;
          currentMomentum = scale v (mass body);
          velocityAlongNormal = Dot v collisionNormal;
          reflectedMomentum =
            subtract currentMomentum
              (scale collisionNormal (2 * velocityAlongNormal * mass body));
          dampedMomentum = scale reflectedMomentum (staticObjectDamping this)
      in dampedMomentum)"

text \<open>
  \<open>calculateDynamicCollision\<close> divides by each mass and by \<open>1 / m1 + 1 / m2\<close>; the
  result is \<open>None\<close> when one of these divisors is zero.
\<close>

definition calculateDynamicCollision ::
  "CollisionPhysics \<Rightarrow> PhysicsBody \<Rightarrow> PhysicsBody \<Rightarrow> vector3 \<Rightarrow> CollisionResult option" where
  "calculateDynamicCollision this body1 body2 collisionNormal =
     (let v1 = velocity body1;
          v2 = velocity body2;
          m1 = mass body1;
          m2 = mass body2;
          relativeVelocity = subtract v1 v2;
          velocityAlongNormal = Dot relativeVelocity collisionNormal;
          isApproaching = (velocityAlongNormal > 0);
          e = restitution this
      in do {
        inv1 \<leftarrow> divide_js 1 m1;
        inv2 \<leftarrow> divide_js 1 m2;
        j \<leftarrow> divide_js (- (1 + e) * velocityAlongNormal) (inv1 + inv2);
        let imp = scale collisionNormal j;
        minv2 \<leftarrow> divide_js (- 1) m2;
        Some \<lparr>body1NewVelocity = add v1 (scale imp inv1),
              body2NewVelocity = add v2 (scale imp minv2),
              impulse = imp,
              shouldSeparate = isApproaching\<rparr>
      })"

definition calculateCollisionNormal :: "vector3 \<Rightarrow> vector3 \<Rightarrow> vector3" where
  "calculateCollisionNormal position1 position2 =
     normalize_vec (subtract position2 position1)"

definition applyMomentumFriction ::
  "CollisionPhysics \<Rightarrow> vector3 \<Rightarrow> real \<Rightarrow> vector3" where
  "applyMomentumFriction this momentum deltaTime =
     (let dragFactor = 1 - momentumFriction this * deltaTime;
          newMomentum = scale momentum (max 0 dragFactor)
      in if length_vec newMomentum < momentumThreshold this then Zero
         else newMomentum)"

definition velocityToMomentum :: "vector3 \<Rightarrow> real \<Rightarrow> vector3" where
  "velocityToMomentum v m = scale v m"

definition momentumToVelocity :: "vector3 \<Rightarrow> real \<Rightarrow> vector3" where
  "momentumToVelocity momentum m =
     (if m = 0 then Zero else scale momentum (1 / m))"

definition isMomentumNegligible :: "CollisionPhysics \<Rightarrow> vector3 \<Rightarrow> bool" where
  "isMomentumNegligible this momentum \<longleftrightarrow> length_vec momentum < momentumThreshold this"

section \<open>Concrete inputs\<close>

text \<open>Two bodies of 1000 kg, the first moving at 1 m/s along x toward the second.\<close>

definition moving_body :: PhysicsBody where
  "moving_body = \<lparr>velocity = Vector3 1 0 0, mass = 1000, position = Vector3 0 0 0\<rparr>"

definition resting_body :: PhysicsBody where
  "resting_body = \<lparr>velocity = Vector3 0 0 0, mass = 1000, position = Vector3 2 0 0\<rparr>"

section \<open>Vehicle\<close>

datatype SurfaceType = planet | ground

text \<open>
  The state of a \<open>Vehicle\<close> that the per-frame integration reads and writes.
  \<open>rotationQuaternion\<close> is \<open>rootNode.rotationQuaternion\<close>, the orientation; \<open>create\<close>
  sets it before the first frame, so the fallback to the identity in
  \<open>rootNode.rotationQuaternion || Quaternion.Identity()\<close> is never taken.  The scene node's
  own position is only ever assigned the vehicle's \<open>position\<close> and is left out, as are
  the scene, the configuration record and the model path, which no frame reads.
\<close>

record Vehicle =
  rotationQuaternion :: quaternion
  position :: vector3
  speed :: real
  velocity :: vector3
  momentum :: vector3
  mass :: real
  maxSpeed :: real
  acceleration :: real
  friction :: real
  steerAngle :: real
  maxSteerAngle :: real
  inputAccelerate :: real
  inputSteer :: real
  inputHandbrake :: bool
  surfaceType :: SurfaceType
  planetRadius :: real
  planetCenter :: vector3
  groundHeight :: real
  heightOffset :: real
  collisionPhysics :: CollisionPhysics

definition updateMovement :: "Vehicle \<Rightarrow> real \<Rightarrow> Vehicle option" where
  "updateMovement this deltaTime =
     do {
       this \<leftarrow>
         (if inputHandbrake this then
            (let brakingForce = 30;
                 speedSign = sgn (speed this);
                 brakingAmount = brakingForce * deltaTime
             in if \<bar>speed this\<bar> \<le> brakingAmount then Some (this\<lparr>speed := 0\<rparr>)
                else Some (this\<lparr>speed := speed this - speedSign * brakingAmount\<rparr>))
          else do {
            let this = this\<lparr>speed :=
                  speed this + inputAccelerate this * acceleration this * deltaTime\<rparr>;
            let this = this\<lparr>speed :=
                  max (- maxSpeed this * 0.5) (min (maxSpeed this) (speed this))\<rparr>;
            decay \<leftarrow> Math_pow (friction this) deltaTime;
            Some (this\<lparr>speed := speed this * decay\<rparr>)
          });
       let absSpeed = \<bar>speed this\<bar>;
       if absSpeed < 0.5 then Some (this\<lparr>steerAngle := 0\<rparr>)
       else Some (this\<lparr>steerAngle := inputSteer this * maxSteerAngle this * speed this\<rparr>)
     }"

definition updateMomentum :: "Vehicle \<Rightarrow> real \<Rightarrow> Vehicle" where
  "updateMomentum this deltaTime =
     this\<lparr>momentum :=
       applyMomentumFriction (collisionPhysics this) (momentum this) deltaTime\<rparr>"

definition updatePositionGround :: "Vehicle \<Rightarrow> real \<Rightarrow> Vehicle option" where
  "updatePositionGround this deltaTime =
     (let this = updateMomentum this deltaTime;
          currentRotation = rotationQuaternion this;
          localForward = Vector3 0 0 1;
          forward = rotateByQuaternion localForward currentRotation;
          drivingVelocity = scale forward (speed this);
          momentumVelocity = momentumToVelocity (momentum this) (mass this);
          this = this\<lparr>velocity := add drivingVelocity momentumVelocity\<rparr>
      in if length_vec (velocity this) < 0.1 then Some (this\<lparr>velocity := Zero\<rparr>)
         else do {
           let moved = add (position this) (scale (velocity this) deltaTime);
           let this = this\<lparr>position :=
                 Vector3 (vx moved) (groundHeight this + heightOffset this) (vz moved)\<rparr>;
           steeringRotation \<leftarrow> RotationAxis Up (steerAngle this * deltaTime);
           let newRotation = multiply steeringRotation currentRotation;
           Some (this\<lparr>rotationQuaternion := newRotation\<rparr>)
         })"

definition createAlignmentRotation :: "quaternion \<Rightarrow> vector3 \<Rightarrow> quaternion option" where
  "createAlignmentRotation currentRotation surfaceNormal =
     (let localUp = Vector3 0 1 0;
          currentUp = rotateByQuaternion localUp currentRotation;
          rotationAxis = Cross currentUp surfaceNormal;
          rotationAxisLength = length_vec rotationAxis
      in if rotationAxisLength < 0.0001 then Some currentRotation
         else do {
           let angle = arcsin (min 1 rotationAxisLength);
           alignmentQuat \<leftarrow> RotationAxis (normalize_vec rotationAxis) angle;
           Some (multiply alignmentQuat currentRotation)
         })"

definition updatePositionPlanet :: "Vehicle \<Rightarrow> real \<Rightarrow> Vehicle option" where
  "updatePositionPlanet this deltaTime =
     (let this = updateMomentum this deltaTime;
          currentRotation = rotationQuaternion this;
          surfaceNormal = normalize_vec (subtract (position this) (planetCenter this));
          localForward = Vector3 0 0 1;
          forward = rotateByQuaternion localForward currentRotation;
          drivingVelocity = scale forward (speed this);
          momentumVelocity = momentumToVelocity (momentum this) (mass this);
          this = this\<lparr>velocity := add drivingVelocity momentumVelocity\<rparr>
      in if length_vec (velocity this) < 0.1 then Some (this\<lparr>velocity := Zero\<rparr>)
         else do {
           let dotProduct = Dot forward surfaceNormal;
           let tangentForward =
                 normalize_vec (subtract forward (scale surfaceNormal dotProduct));
           let localUp = Vector3 0 1 0;
           let worldUp = rotateByQuaternion localUp currentRotation;
           steeringRotation \<leftarrow> RotationAxis worldUp (steerAngle this * deltaTime);
           let newRotation = multiply steeringRotation currentRotation;
           angularDisplacement \<leftarrow> divide_js (speed this * deltaTime) (planetRadius this);
           let rotationAxis = normalize_vec (Cross surfaceNormal tangentForward);
           movementRotation \<leftarrow> RotationAxis rotationAxis angularDisplacement;
           let relativePosition = subtract (position this) (planetCenter this);
           let newRelativePosition = rotateByQuaternion relativePosition movementRotation;
           let this = this\<lparr>position := add (planetCenter this) newRelativePosition\<rparr>;
           let targetDistance = planetRadius this + heightOffset this;
           let currentDistance = Distance (position this) (planetCenter this);
           let this =
                 (if \<bar>currentDistance - targetDistance\<bar> > 0.001 then
                    (let correctedDirection =
                           normalize_vec (subtract (position this) (planetCenter this))
                     in this\<lparr>position :=
                          add (planetCenter this) (scale correctedDirection targetDistance)\<rparr>)
                  else this);
           let newSurfaceNormal =
                 normalize_vec (subtract (position this) (planetCenter this));
           alignmentRotation \<leftarrow> createAlignmentRotation newRotation newSurfaceNormal;
           Some (this\<lparr>rotationQuaternion := alignmentRotation\<rparr>)
         })"

definition updatePosition :: "Vehicle \<Rightarrow> real \<Rightarrow> Vehicle option" where
  "updatePosition this deltaTime =
     (if surfaceType this = planet then updatePositionPlanet this deltaTime
      else updatePositionGround this deltaTime)"

definition update :: "Vehicle \<Rightarrow> real \<Rightarrow> Vehicle option" where
  "update this deltaTime =
     do {
       this \<leftarrow> updateMovement this deltaTime;
       updatePosition this deltaTime
     }"

definition setInput :: "Vehicle \<Rightarrow> real \<Rightarrow> real \<Rightarrow> bool \<Rightarrow> Vehicle" where
  "setInput this accelerate steer handbrake =
     this\<lparr>inputAccelerate := accelerate, inputSteer := steer, inputHandbrake := handbrake\<rparr>"


definition setPosition :: "Vehicle \<Rightarrow> vector3 \<Rightarrow> Vehicle" where
  "setPosition this p = this\<lparr>position := p\<rparr>"


definition setMomentum :: "Vehicle \<Rightarrow> vector3 \<Rightarrow> Vehicle" where
  "setMomentum this m = this\<lparr>momentum := m\<rparr>"

definition applyCollisionImpulse :: "Vehicle \<Rightarrow> vector3 \<Rightarrow> Vehicle" where
  "applyCollisionImpulse this imp =
     (let momentumChange = imp;
          this = this\<lparr>momentum := add (momentum this) momentumChange\<rparr>
      in this\<lparr>speed := 0\<rparr>)"

text \<open>
  The game loop: each frame sets the input and then calls \<open>update\<close> with the frame's
  time step.  A frame is the tuple (accelerate, steer, handbrake, deltaTime).
\<close>

type_synonym frame = "real \<times> real \<times> bool \<times> real"

fun step_frame :: "Vehicle \<Rightarrow> frame \<Rightarrow> Vehicle option" where
  "step_frame this (accelerate, steer, handbrake, deltaTime) =
     update (setInput this accelerate steer handbrake) deltaTime"

fun run_frames :: "Vehicle \<Rightarrow> frame list \<Rightarrow> Vehicle option" where
  "run_frames this [] = Some this"
| "run_frames this (f # fs) =
     (case step_frame this f of None \<Rightarrow> None | Some this' \<Rightarrow> run_frames this' fs)"

section \<open>Properties of a vehicle's state\<close>


text \<open>
  The distance from the position to the planet's centre differs from
  \<open>planetRadius + heightOffset\<close> by less than \<open>1e-3\<close>.
\<close>

definition on_sphere :: "Vehicle \<Rightarrow> bool" where
  "on_sphere this \<longleftrightarrow>
     \<bar>Distance (Vehicle.position this) (planetCenter this)
        - (planetRadius this + heightOffset this)\<bar> < 0.001"

text \<open>
  An orientation rotated about the world up axis by an angle, the rotation composed
  before (multiplied onto the left of) the orientation: what the steering of the ground
  mode does to the orientation on a frame that reaches it.
\<close>

definition steered :: "quaternion \<Rightarrow> real \<Rightarrow> quaternion option" where
  "steered q angle =
     do {
       steeringRotation \<leftarrow> RotationAxis Up angle;
       Some (multiply steeringRotation q)
     }"

text \<open>
  The velocity a frame of time step \<open>deltaTime\<close> computes for a vehicle whose movement is
  already updated: the driving velocity along the forward axis plus the velocity of the
  momentum after this frame's friction.
\<close>

definition frame_velocity :: "Vehicle \<Rightarrow> real \<Rightarrow> vector3" where
  "frame_velocity this deltaTime =
     add (scale (rotateByQuaternion (Vector3 0 0 1) (rotationQuaternion this)) (speed this))
         (momentumToVelocity
            (applyMomentumFriction (collisionPhysics this) (momentum this) deltaTime)
            (Vehicle.mass this))"

text \<open>A quaternion of norm 1.\<close>

definition unit_quaternion :: "quaternion \<Rightarrow> bool" where
  "unit_quaternion q \<longleftrightarrow> qx q * qx q + qy q * qy q + qz q * qz q + qw q * qw q = 1"

text \<open>
  The axis about which a planet-mode frame rotates the position: the normalised cross
  product of the surface normal and the forward axis projected onto the tangent plane.
\<close>

definition movement_axis :: "Vehicle \<Rightarrow> vector3" where
  "movement_axis this =
     (let surfaceNormal = normalize_vec (subtract (Vehicle.position this) (planetCenter this));
          forward = rotateByQuaternion (Vector3 0 0 1) (rotationQuaternion this);
          dotProduct = Dot forward surfaceNormal;
          tangentForward = normalize_vec (subtract forward (scale surfaceNormal dotProduct))
      in normalize_vec (Cross surfaceNormal tangentForward))"

section \<open>Concrete vehicles\<close>

text \<open>
  A car on flat ground at the origin, at rest, with no input; the other vehicles below
  are variations of it.
\<close>

definition ground_car :: Vehicle where
  "ground_car =
     \<lparr>rotationQuaternion = Identity, position = Vector3 0 0 0, speed = 0,
      velocity = Zero, momentum = Zero, mass = 1000, maxSpeed = 20, acceleration = 10,
      friction = 1, steerAngle = 0, maxSteerAngle = 1, inputAccelerate = 0,
      inputSteer = 0, inputHandbrake = False, surfaceType = ground, planetRadius = 0,
      planetCenter = Zero, groundHeight = 0, heightOffset = 0,
      collisionPhysics = default_physics\<rparr>"

text \<open>The car driving forward at speed 10.\<close>

definition driving_car :: Vehicle where
  "driving_car = ground_car\<lparr>speed := 10\<rparr>"

text \<open>
  The car driving forward at speed 1, with a collision momentum that, after half a
  second of friction, is \<open>(0, 0, -1000)\<close>: a momentum velocity of 1 against the
  forward axis.
\<close>

definition pushed_car :: Vehicle where
  "pushed_car = ground_car\<lparr>speed := 1, momentum := Vector3 0 0 (- 1250)\<rparr>"


text \<open>
  A car on top of a planet of radius 10 centred at the origin, its up axis along the
  surface normal.
\<close>

definition planet_car :: Vehicle where
  "planet_car =
     ground_car\<lparr>surfaceType := planet, planetRadius := 10, position := Vector3 0 10 0\<rparr>"

text \<open>
  A car created at the very centre of the planet: \<open>detectSurface\<close> measures the radius
  as the distance from the car to the centre, which is 0.
\<close>

definition centre_car :: Vehicle where
  "centre_car = ground_car\<lparr>surfaceType := planet\<rparr>"

text \<open>
  A car on a planet of radius 10 centred at the origin, standing at \<open>(0, 0, 10)\<close> with
  the identity orientation: its forward axis \<open>(0, 0, 1)\<close> is along the surface normal.
\<close>

definition pole_car :: Vehicle where
  "pole_car =
     ground_car\<lparr>surfaceType := planet, planetRadius := 10, position := Vector3 0 0 10\<rparr>"

section \<open>Facts about vectors\<close>

lemma length_vec_nonneg: "0 \<le> length_vec v"
  by (cases v) simp

lemma length_vec_Zero: "length_vec Zero = 0"
  by (simp add: Zero_def)

lemma length_vec_eq_0_iff: "length_vec v = 0 \<longleftrightarrow> v = Zero"
proof (cases v)
  case (Vector3 a b c)
  have "a * a + b * b + c * c = 0 \<longleftrightarrow> a * a = 0 \<and> b * b = 0 \<and> c * c = 0"
    by (simp add: add_nonneg_eq_0_iff)
  then show ?thesis
    using Vector3 by (simp add: Zero_def)
qed

lemma length_vec_scale: "length_vec (scale v s) = \<bar>s\<bar> * length_vec v"
proof (cases v)
  case (Vector3 a b c)
  have "a * s * (a * s) + b * s * (b * s) + c * s * (c * s)
        = (s * s) * (a * a + b * b + c * c)"
    by (simp add: algebra_simps)
  then have "length_vec (scale v s) = sqrt (s * s) * sqrt (a * a + b * b + c * c)"
    using Vector3 by (simp add: real_sqrt_mult)
  then show ?thesis
    using Vector3 by simp
qed

lemma scale_Zero: "scale Zero s = Zero"
  by (simp add: Zero_def)

section \<open>Facts about friction and speed\<close>

lemma friction_factor_lt_1:
  fixes f dt :: real
  assumes "0 < dt" "0 < f"
  shows "0 \<le> max 0 (1 - f * dt)" "max 0 (1 - f * dt) < 1"
  using assms by simp_all

lemma applyMomentumFriction_Zero: "applyMomentumFriction this Zero dt = Zero"
  by (simp add: applyMomentumFriction_def scale_Zero Let_def)

lemma applyMomentumFriction_decreases:
  assumes "0 < dt" "0 < momentumFriction this" "m \<noteq> Zero"
  shows "length_vec (applyMomentumFriction this m dt) < length_vec m"
proof -
  let ?k = "max 0 (1 - momentumFriction this * dt)"
  have pos: "0 < length_vec m"
    using assms(3) length_vec_nonneg [of m] length_vec_eq_0_iff [of m] by linarith
  have k: "0 \<le> ?k" "?k < 1"
    using friction_factor_lt_1 [OF assms(1,2)] by simp_all
  have "length_vec (scale m ?k) = ?k * length_vec m"
    using k(1) by (simp only: length_vec_scale abs_of_nonneg)
  also have "\<dots> < length_vec m"
    using k(2) pos by simp
  finally have "length_vec (scale m ?k) < length_vec m" .
  then show ?thesis
    using pos by (simp add: applyMomentumFriction_def Let_def length_vec_Zero)
qed

lemma scale_scale: "scale (scale v a) b = scale v (a * b)"
  by (cases v) (simp add: mult.assoc)

lemma iterate_friction:
  "((\<lambda>x. applyMomentumFriction this x dt) ^^ n) m = Zero
   \<or> ((\<lambda>x. applyMomentumFriction this x dt) ^^ n) m
       = scale m (max 0 (1 - momentumFriction this * dt) ^ n)"
proof (induction n)
  case 0
  show ?case by (cases m) simp
next
  case (Suc n)
  let ?k = "max 0 (1 - momentumFriction this * dt)"
  let ?F = "\<lambda>x. applyMomentumFriction this x dt"
  from Suc show ?case
  proof
    assume "(?F ^^ n) m = Zero"
    then show ?thesis by (simp add: applyMomentumFriction_Zero)
  next
    assume eq: "(?F ^^ n) m = scale m (?k ^ n)"
    have "?F (scale m (?k ^ n)) = Zero \<or> ?F (scale m (?k ^ n)) = scale m (?k ^ Suc n)"
      by (simp add: applyMomentumFriction_def Let_def scale_scale mult.commute)
    then show ?thesis using eq by simp
  qed
qed

lemma friction_reaches_Zero:
  assumes "0 < dt" "0 < momentumFriction this" "0 < momentumThreshold this"
  shows "\<exists>n. ((\<lambda>x. applyMomentumFriction this x dt) ^^ n) m = Zero"
proof (cases "m = Zero")
  case True
  then have "((\<lambda>x. applyMomentumFriction this x dt) ^^ 0) m = Zero" by simp
  then show ?thesis by blast
next
  case False
  let ?k = "max 0 (1 - momentumFriction this * dt)"
  let ?F = "\<lambda>x. applyMomentumFriction this x dt"
  have pos: "0 < length_vec m"
    using False length_vec_nonneg [of m] length_vec_eq_0_iff [of m] by linarith
  have k: "0 \<le> ?k" "?k < 1"
    using friction_factor_lt_1 [OF assms(1,2)] by simp_all
  have "0 < momentumThreshold this / length_vec m"
    using assms(3) pos by simp
  then obtain n where n: "?k ^ n < momentumThreshold this / length_vec m"
    using real_arch_pow_inv [OF _ k(2)] by blast
  have small: "length_vec (scale m (?k ^ Suc n)) < momentumThreshold this"
  proof -
    have "?k ^ Suc n \<le> ?k ^ n"
      using k by (simp add: mult_left_le_one_le)
    then have "?k ^ Suc n * length_vec m \<le> ?k ^ n * length_vec m"
      using pos by (simp only: mult_le_cancel_right_pos)
    also have "\<dots> < momentumThreshold this"
      using n pos by (simp add: pos_less_divide_eq)
    finally show ?thesis
      using k(1) by (simp only: length_vec_scale abs_of_nonneg zero_le_power)
  qed
  have "(?F ^^ Suc n) m = Zero"
  proof -
    consider "(?F ^^ n) m = Zero" | "(?F ^^ n) m = scale m (?k ^ n)"
      using iterate_friction [where this = this and dt = dt and n = n and m = m] by blast
    then show ?thesis
    proof cases
      case 1
      then show ?thesis by (simp add: applyMomentumFriction_Zero)
    next
      case 2
      have "?F (scale m (?k ^ n)) = Zero"
        using small by (simp add: applyMomentumFriction_def Let_def scale_scale mult.commute)
      then show ?thesis using 2 by simp
    qed
  qed
  then show ?thesis by blast
qed



section \<open>Facts about the frame update\<close>

lemma updateMovement_shape:
  assumes "updateMovement v dt = Some m"
  shows "\<exists>s a. m = v\<lparr>speed := s, steerAngle := a\<rparr>"
proof (cases "inputHandbrake v")
  case True
  then show ?thesis
    using assms unfolding updateMovement_def Let_def
    by (simp split: if_splits) blast+
next
  case False
  then show ?thesis
    using assms unfolding updateMovement_def Let_def
    by (simp add: bind_eq_Some_conv split: if_splits) blast+
qed





lemma updatePositionPlanet_shape:
  assumes "updatePositionPlanet m dt = Some r"
  shows "\<exists>vel p q. r = m\<lparr>momentum := applyMomentumFriction (collisionPhysics m) (momentum m) dt,
        Vehicle.velocity := vel, Vehicle.position := p, rotationQuaternion := q\<rparr>"
proof (cases "length_vec (frame_velocity m dt) < 0.1")
  case True
  then have "r = m\<lparr>momentum := applyMomentumFriction (collisionPhysics m) (momentum m) dt,
        Vehicle.velocity := Zero, Vehicle.position := Vehicle.position m,
        rotationQuaternion := rotationQuaternion m\<rparr>"
    using assms unfolding updatePositionPlanet_def updateMomentum_def Let_def frame_velocity_def
    by clarsimp
  then show ?thesis by blast
next
  case False
  then show ?thesis
    using assms unfolding updatePositionPlanet_def updateMomentum_def Let_def frame_velocity_def
    by (simp add: bind_eq_Some_conv if_distrib [of "\<lambda>v. v\<lparr>rotationQuaternion := _\<rparr>"]
        split: if_splits cong: if_cong) blast+
qed


lemma length_vec_Up: "length_vec Up = 1"
  by (simp add: Up_def)

lemma RotationAxis_Up:
  "RotationAxis Up angle = Some (Quaternion 0 (sin (angle / 2)) 0 (cos (angle / 2)))"
  by (simp add: RotationAxis_def divide_js_def length_vec_Up) (simp add: Up_def)

lemma steered_eq:
  "steered q angle = Some (multiply (Quaternion 0 (sin (angle / 2)) 0 (cos (angle / 2))) q)"
  by (simp add: steered_def RotationAxis_Up)

lemma updatePositionGround_cases:
  "updatePositionGround m dt =
     (if length_vec (frame_velocity m dt) < 0.1
      then Some (m\<lparr>momentum := applyMomentumFriction (collisionPhysics m) (momentum m) dt,
                   Vehicle.velocity := Zero\<rparr>)
      else Some (m\<lparr>momentum := applyMomentumFriction (collisionPhysics m) (momentum m) dt,
                   Vehicle.velocity := frame_velocity m dt,
                   Vehicle.position :=
                     Vector3 (vx (add (Vehicle.position m) (scale (frame_velocity m dt) dt)))
                             (groundHeight m + heightOffset m)
                             (vz (add (Vehicle.position m) (scale (frame_velocity m dt) dt))),
                   rotationQuaternion :=
                     multiply (Quaternion 0 (sin (steerAngle m * dt / 2)) 0
                                 (cos (steerAngle m * dt / 2)))
                              (rotationQuaternion m)\<rparr>))"
  unfolding updatePositionGround_def updateMomentum_def Let_def frame_velocity_def
  by (simp add: RotationAxis_Up)

section \<open>Facts about rotations and the planet frame\<close>

lemma length_vec_sq: "length_vec v * length_vec v = Dot v v"
  by (cases v) (simp add: add_nonneg_nonneg)

lemma RotationAxis_unit:
  assumes "RotationAxis ax ang = Some q"
  shows "unit_quaternion q"
proof -
  let ?l = "length_vec ax"
  let ?s = "sin (ang / 2) / ?l"
  from assms have l: "?l \<noteq> 0"
    and q: "q = Quaternion (vx ax * ?s) (vy ax * ?s) (vz ax * ?s) (cos (ang / 2))"
    by (auto simp: RotationAxis_def divide_js_def bind_eq_Some_conv split: if_splits)
  have dot: "vx ax * vx ax + vy ax * vy ax + vz ax * vz ax = ?l * ?l"
    using length_vec_sq [of ax] by (cases ax) simp
  have gen: "\<And>s::real. vx ax * s * (vx ax * s) + vy ax * s * (vy ax * s) + vz ax * s * (vz ax * s)
        = (vx ax * vx ax + vy ax * vy ax + vz ax * vz ax) * (s * s)"
    by (simp add: algebra_simps)
  have "vx ax * ?s * (vx ax * ?s) + vy ax * ?s * (vy ax * ?s) + vz ax * ?s * (vz ax * ?s)
        = (vx ax * vx ax + vy ax * vy ax + vz ax * vz ax) * (?s * ?s)"
    by (rule gen)
  also have "\<dots> = (?l * ?l) * (?s * ?s)"
    by (simp only: dot)
  also have "\<dots> = sin (ang / 2) * sin (ang / 2)"
    using l by simp
  finally show ?thesis
    using sin_cos_squared_add [of "ang / 2"]
    by (simp add: unit_quaternion_def q power2_eq_square)
qed

lemma rotate_sq:
  fixes a b c x y z w :: real
  assumes "x * x + y * y + z * z + w * w = 1"
  shows "(a + w * (2 * (y * c - z * b)) + y * (2 * (x * b - y * a)) - z * (2 * (z * a - x * c)))\<^sup>2
       + (b + w * (2 * (z * a - x * c)) + z * (2 * (y * c - z * b)) - x * (2 * (x * b - y * a)))\<^sup>2
       + (c + w * (2 * (x * b - y * a)) + x * (2 * (z * a - x * c)) - y * (2 * (y * c - z * b)))\<^sup>2
       = a\<^sup>2 + b\<^sup>2 + c\<^sup>2"
  using assms by algebra

lemma length_vec_rotate:
  assumes "unit_quaternion q"
  shows "length_vec (rotateByQuaternion v q) = length_vec v"
proof -
  obtain a b c where v: "v = Vector3 a b c" by (cases v)
  obtain x y z w where q: "q = Quaternion x y z w" by (cases q)
  have u: "x * x + y * y + z * z + w * w = 1"
    using assms by (simp add: unit_quaternion_def q)
  show ?thesis
    using rotate_sq [OF u, of a c b]
    by (simp add: v q Let_def power2_eq_square)
qed

lemma subtract_add_cancel: "subtract (add c w) c = w"
  by (cases c; cases w) simp

lemma Distance_add_left: "Distance (add c w) c = length_vec w"
  by (simp add: Distance_def subtract_add_cancel)

text \<open>
  The correction step of the planet frame: re-projecting a position other than the
  centre onto a non-negative target distance lands exactly on that distance.
\<close>

lemma length_vec_normalize:
  assumes "v \<noteq> Zero"
  shows "length_vec (normalize_vec v) = 1"
proof -
  have "0 < length_vec v"
    using assms length_vec_nonneg [of v] length_vec_eq_0_iff [of v] by linarith
  then show ?thesis
    by (simp add: normalize_vec_def Let_def length_vec_scale)
qed

lemma correction_reaches_target:
  assumes "p \<noteq> c" and "0 \<le> T"
  shows "Distance (add c (scale (normalize_vec (subtract p c)) T)) c = T"
proof -
  have "subtract p c \<noteq> Zero"
    using assms(1) by (cases p; cases c) (simp add: Zero_def)
  then have "length_vec (normalize_vec (subtract p c)) = 1"
    by (rule length_vec_normalize)
  then show ?thesis
    using assms(2) by (simp add: Distance_add_left length_vec_scale)
qed

lemma sqrt_100: "sqrt 100 = (10::real)"
  using real_sqrt_abs2 [of "10::real"] by simp

lemma updatePositionPlanet_position:
  assumes "updatePositionPlanet m dt = Some r"
  shows "Vehicle.position r = Vehicle.position m
     \<or> (\<exists>mov. unit_quaternion mov
          \<and> Vehicle.position r =
            (let c = planetCenter m;
                 p = add c (rotateByQuaternion (subtract (Vehicle.position m) c) mov)
             in if \<bar>Distance p c - (planetRadius m + heightOffset m)\<bar> > 0.001
                then add c (scale (normalize_vec (subtract p c)) (planetRadius m + heightOffset m))
                else p))"
proof (cases "length_vec (frame_velocity m dt) < 0.1")
  case True
  then have "Vehicle.position r = Vehicle.position m"
    using assms unfolding updatePositionPlanet_def updateMomentum_def Let_def frame_velocity_def
    by clarsimp
  then show ?thesis by blast
next
  case False
  then obtain ax ang mov q where mov: "RotationAxis ax ang = Some mov"
    and r: "r = (let c = planetCenter m;
                 p = add c (rotateByQuaternion (subtract (Vehicle.position m) c) mov);
                 this = m\<lparr>momentum := applyMomentumFriction (collisionPhysics m) (momentum m) dt,
                          Vehicle.velocity := frame_velocity m dt, Vehicle.position := p\<rparr>
             in (if \<bar>Distance p c - (planetRadius m + heightOffset m)\<bar> > 0.001
                 then this\<lparr>Vehicle.position :=
                   add c (scale (normalize_vec (subtract p c)) (planetRadius m + heightOffset m))\<rparr>
                 else this)\<lparr>rotationQuaternion := q\<rparr>)"
    using assms unfolding updatePositionPlanet_def updateMomentum_def Let_def frame_velocity_def
    by (simp add: bind_eq_Some_conv cong: if_cong) blast
  have "unit_quaternion mov"
    using mov by (rule RotationAxis_unit)
  moreover have "Vehicle.position r =
            (let c = planetCenter m;
                 p = add c (rotateByQuaternion (subtract (Vehicle.position m) c) mov)
             in if \<bar>Distance p c - (planetRadius m + heightOffset m)\<bar> > 0.001
                then add c (scale (normalize_vec (subtract p c)) (planetRadius m + heightOffset m))
                else p)"
    by (simp add: r Let_def)
  ultimately show ?thesis by blast
qed

lemma updatePositionPlanet_on_sphere:
  assumes "updatePositionPlanet m dt = Some r" and "on_sphere m"
  shows "on_sphere r"
proof -
  have keep: "planetCenter r = planetCenter m" "planetRadius r = planetRadius m"
    "heightOffset r = heightOffset m"
    using updatePositionPlanet_shape [OF assms(1)] by auto
  from updatePositionPlanet_position [OF assms(1)] show ?thesis
  proof
    assume "Vehicle.position r = Vehicle.position m"
    then show ?thesis
      using assms(2) keep by (simp add: on_sphere_def)
  next
    let ?c = "planetCenter m"
    let ?T = "planetRadius m + heightOffset m"
    assume "\<exists>mov. unit_quaternion mov
          \<and> Vehicle.position r =
            (let c = planetCenter m;
                 p = add c (rotateByQuaternion (subtract (Vehicle.position m) c) mov)
             in if \<bar>Distance p c - (planetRadius m + heightOffset m)\<bar> > 0.001
                then add c (scale (normalize_vec (subtract p c)) (planetRadius m + heightOffset m))
                else p)"
    then obtain mov where u: "unit_quaternion mov"
      and p: "Vehicle.position r =
            (let p = add ?c (rotateByQuaternion (subtract (Vehicle.position m) ?c) mov)
             in if \<bar>Distance p ?c - ?T\<bar> > 0.001
                then add ?c (scale (normalize_vec (subtract p ?c)) ?T)
                else p)"
      by (auto simp: Let_def)
    let ?p = "add ?c (rotateByQuaternion (subtract (Vehicle.position m) ?c) mov)"
    have d: "Distance ?p ?c = Distance (Vehicle.position m) ?c"
      by (simp add: Distance_add_left length_vec_rotate [OF u]) (simp add: Distance_def)
    have near: "\<bar>Distance ?p ?c - ?T\<bar> < 0.001"
      using assms(2) by (simp only: d on_sphere_def)
    then have "Vehicle.position r = ?p"
      by (simp add: p Let_def)
    then show ?thesis
      using near keep by (simp add: on_sphere_def)
  qed
qed

lemma step_frame_on_sphere:
  assumes "step_frame v f = Some v'" and "surfaceType v = planet" and "on_sphere v"
  shows "on_sphere v' \<and> surfaceType v' = planet"
proof -
  obtain a s h dt where f: "f = (a, s, h, dt)"
    by (cases f)
  let ?i = "setInput v a s h"
  from assms(1) obtain m where m: "updateMovement ?i dt = Some m"
    and r: "updatePosition m dt = Some v'"
    by (auto simp: f update_def bind_eq_Some_conv)
  from updateMovement_shape [OF m] obtain sp an where
    "m = ?i\<lparr>speed := sp, steerAngle := an\<rparr>" by blast
  then have pl: "surfaceType m = planet" and on: "on_sphere m"
    using assms(2,3) by (simp_all add: setInput_def on_sphere_def)
  from r pl have p: "updatePositionPlanet m dt = Some v'"
    by (simp add: updatePosition_def)
  have "surfaceType v' = planet"
    using updatePositionPlanet_shape [OF p] pl by auto
  then show ?thesis
    using updatePositionPlanet_on_sphere [OF p on] by simp
qed

lemma createAlignmentRotation_total:
  "\<exists>q. createAlignmentRotation cur n = Some q"
proof -
  let ?ax = "Cross (rotateByQuaternion (Vector3 0 1 0) cur) n"
  have "length_vec (normalize_vec ?ax) \<noteq> 0" if "\<not> length_vec ?ax < 0.0001"
  proof -
    from that have pos: "0 < length_vec ?ax" by simp
    then have "length_vec (normalize_vec ?ax) = 1"
      by (simp add: normalize_vec_def Let_def length_vec_scale)
    then show ?thesis by simp
  qed
  then show ?thesis
    by (simp add: createAlignmentRotation_def Let_def RotationAxis_def divide_js_def)
qed

lemma bind_createAlignmentRotation:
  "\<exists>r. Option.bind (createAlignmentRotation cur n) (\<lambda>al. Some (g al)) = Some r"
  using createAlignmentRotation_total [of cur n] by auto

lemma updatePositionPlanet_defined:
  assumes "length_vec (rotateByQuaternion (Vector3 0 1 0) (rotationQuaternion m)) \<noteq> 0"
    and "planetRadius m \<noteq> 0" and "length_vec (movement_axis m) \<noteq> 0"
  shows "\<exists>r. updatePositionPlanet m dt = Some r"
  using assms unfolding updatePositionPlanet_def updateMomentum_def Let_def movement_axis_def
  by (simp add: RotationAxis_def divide_js_def bind_createAlignmentRotation)

text \<open>
  A planet frame that moves divides by the length of the movement axis and by the
  planet's radius; when either is zero the frame does not end with finite numbers.
\<close>

lemma updatePositionPlanet_zero_axis:
  assumes "\<not> length_vec (frame_velocity m dt) < 0.1" and "length_vec (movement_axis m) = 0"
  shows "updatePositionPlanet m dt = None"
  using assms
  unfolding updatePositionPlanet_def updateMomentum_def Let_def movement_axis_def
    frame_velocity_def
  by (simp add: RotationAxis_def divide_js_def)

lemma updatePositionPlanet_zero_radius:
  assumes "\<not> length_vec (frame_velocity m dt) < 0.1" and "planetRadius m = 0"
  shows "updatePositionPlanet m dt = None"
  using assms
  unfolding updatePositionPlanet_def updateMomentum_def Let_def frame_velocity_def
  by (simp add: RotationAxis_def divide_js_def)

section \<open>Claims about CollisionPhysics\<close>

text \<open>
  C10.  For every momentum vector and every mass, \<open>momentumToVelocity\<close> returns the
  momentum scaled by \<open>1 / mass\<close> when the mass is not zero, and the zero vector
  \<open>(0, 0, 0)\<close> when the mass is zero.  The function is total: it returns in both cases.
\<close>

theorem momentumToVelocity_spec:
  "momentumToVelocity m ms = (if ms = 0 then Vector3 0 0 0 else scale m (1 / ms))"
  by (simp add: momentumToVelocity_def Zero_def)

text \<open>
  C8.  For every body and every collision normal \<open>n\<close> (unit or not),
  \<open>calculateStaticCollision\<close> returns \<open>mass \<cdot> v - 2 \<cdot> mass \<cdot> (v \<cdot> n) \<cdot> n\<close> scaled by
  \<open>staticObjectDamping\<close>.  With the default configuration, velocity \<open>(1, 0, 0)\<close>,
  mass 1000 and normal \<open>(1, 0, 0)\<close> the x component of the result is \<open>-400\<close>.
\<close>

theorem calculateStaticCollision_spec:
  "calculateStaticCollision this body n =
     scale (subtract (scale (PhysicsBody.velocity body) (PhysicsBody.mass body))
                     (scale n (2 * PhysicsBody.mass body * Dot (PhysicsBody.velocity body) n)))
           (staticObjectDamping this)
   \<and> vx (calculateStaticCollision default_physics moving_body (Vector3 1 0 0)) = - 400"
  by (simp add: calculateStaticCollision_def default_physics_def moving_body_def Let_def
      mult.commute mult.left_commute)

text \<open>
  C5.  For every momentum \<open>m\<close> and every \<open>dt\<close>, \<open>applyMomentumFriction\<close> returns \<open>m\<close>
  scaled by \<open>max 0 (1 - momentumFriction \<cdot> dt)\<close> when the length of that scaled vector
  is at least \<open>momentumThreshold\<close>, and the zero vector otherwise.  With the default
  friction 0.4, the momentum \<open>(100, 0, 0)\<close> becomes \<open>(60, 0, 0)\<close> after \<open>dt = 1\<close>.
\<close>

theorem applyMomentumFriction_spec:
  "applyMomentumFriction this m dt =
     (if momentumThreshold this \<le> length_vec (scale m (max 0 (1 - momentumFriction this * dt)))
      then scale m (max 0 (1 - momentumFriction this * dt))
      else Vector3 0 0 0)
   \<and> applyMomentumFriction default_physics (Vector3 100 0 0) 1 = Vector3 60 0 0"
  by (simp add: applyMomentumFriction_def default_physics_def Zero_def not_less)

text \<open>
  C2.  For two bodies of positive mass \<open>m1\<close>, \<open>m2\<close> with velocities \<open>v1\<close>, \<open>v2\<close> and every
  normal \<open>n\<close> (the identity does not need \<open>n\<close> to be a unit vector),
  \<open>calculateDynamicCollision\<close> returns a result, with
  \<open>body1NewVelocity = v1 + j \<cdot> n / m1\<close> and \<open>body2NewVelocity = v2 - j \<cdot> n / m2\<close>, where
  \<open>j = - (1 + e) \<cdot> ((v1 - v2) \<cdot> n) / (1 / m1 + 1 / m2)\<close> and \<open>e\<close> is the configured
  restitution; \<open>shouldSeparate\<close> is true exactly when \<open>(v1 - v2) \<cdot> n > 0\<close>.
\<close>

theorem calculateDynamicCollision_spec:
  assumes "0 < PhysicsBody.mass body1" and "0 < PhysicsBody.mass body2"
  shows "\<exists>r. calculateDynamicCollision this body1 body2 n = Some r
     \<and> (let v1 = PhysicsBody.velocity body1; v2 = PhysicsBody.velocity body2;
            m1 = PhysicsBody.mass body1; m2 = PhysicsBody.mass body2;
            j = - (1 + restitution this) * Dot (subtract v1 v2) n / (1 / m1 + 1 / m2)
        in body1NewVelocity r = add v1 (scale n (j / m1))
         \<and> body2NewVelocity r = subtract v2 (scale n (j / m2))
         \<and> (shouldSeparate r \<longleftrightarrow> 0 < Dot (subtract v1 v2) n))"
proof -
  obtain a b c where n: "n = Vector3 a b c" by (cases n)
  obtain d e f where v2: "PhysicsBody.velocity body2 = Vector3 d e f"
    by (cases "PhysicsBody.velocity body2")
  obtain g h i where v1: "PhysicsBody.velocity body1 = Vector3 g h i"
    by (cases "PhysicsBody.velocity body1")
  have pos: "0 < 1 / PhysicsBody.mass body1 + 1 / PhysicsBody.mass body2"
    using assms by (simp add: add_pos_pos)
  then show ?thesis
    using assms by (simp add: calculateDynamicCollision_def divide_js_def Let_def n v1 v2)
qed

theorem calculateDynamicCollision_witness:
  "\<exists>r. calculateDynamicCollision default_physics moving_body resting_body (Vector3 1 0 0) = Some r
     \<and> body1NewVelocity r = Vector3 (35 / 100) 0 0
     \<and> body2NewVelocity r = Vector3 (65 / 100) 0 0
     \<and> shouldSeparate r"
  using calculateDynamicCollision_spec [of moving_body resting_body default_physics "Vector3 1 0 0"]
  by (simp add: moving_body_def resting_body_def default_physics_def Let_def)

text \<open>
  C6.  For a fixed \<open>dt > 0\<close> and a positive \<open>momentumFriction\<close>: applied to a momentum
  that is not the zero vector, \<open>applyMomentumFriction\<close> returns a momentum of strictly
  smaller magnitude; applied to the zero vector it returns the zero vector; and when
  \<open>momentumThreshold\<close> is positive (as the default 0.05 is), some number \<open>n\<close> of
  applications reaches exactly the zero vector, where every later application stays.
\<close>

theorem applyMomentumFriction_decay:
  assumes "0 < dt" and "0 < momentumFriction this"
  shows "(m \<noteq> Zero \<longrightarrow> length_vec (applyMomentumFriction this m dt) < length_vec m)
     \<and> applyMomentumFriction this Zero dt = Zero
     \<and> (0 < momentumThreshold this \<longrightarrow>
          (\<exists>n. \<forall>k. n \<le> k \<longrightarrow> ((\<lambda>x. applyMomentumFriction this x dt) ^^ k) m = Zero))"
proof (intro conjI impI)
  assume "m \<noteq> Zero"
  then show "length_vec (applyMomentumFriction this m dt) < length_vec m"
    using assms by (rule applyMomentumFriction_decreases [rotated 2])
next
  show "applyMomentumFriction this Zero dt = Zero"
    by (rule applyMomentumFriction_Zero)
next
  let ?F = "\<lambda>x. applyMomentumFriction this x dt"
  assume "0 < momentumThreshold this"
  then obtain n where n: "(?F ^^ n) m = Zero"
    using friction_reaches_Zero [OF assms] by blast
  have stay: "(?F ^^ j) Zero = Zero" for j
    by (induction j) (simp_all add: applyMomentumFriction_Zero)
  have "(?F ^^ k) m = Zero" if "n \<le> k" for k
  proof -
    from that obtain j where k: "k = j + n"
      using le_Suc_ex add.commute by metis
    show ?thesis
      by (simp only: k funpow_add o_apply n stay)
  qed
  then show "\<exists>n. \<forall>k. n \<le> k \<longrightarrow> (?F ^^ k) m = Zero"
    by blast
qed

theorem applyMomentumFriction_decay_witness:
  "length_vec (applyMomentumFriction default_physics (Vector3 100 0 0) 1)
     < length_vec (Vector3 100 0 0)
   \<and> (\<exists>n. \<forall>k. n \<le> k \<longrightarrow>
         ((\<lambda>x. applyMomentumFriction default_physics x 1) ^^ k) (Vector3 100 0 0) = Zero)"
  using applyMomentumFriction_decay [of 1 default_physics "Vector3 100 0 0"]
  by (simp add: default_physics_def Zero_def)

section \<open>Claims about Vehicle\<close>

text \<open>
  C9.  For every impulse, \<open>applyCollisionImpulse\<close> adds the impulse to the momentum and
  sets the speed to 0; position, orientation, velocity, mass, steer angle and the
  surface parameters (surface type, ground height, planet centre, planet radius, height
  offset) are unchanged.
\<close>

theorem applyCollisionImpulse_spec:
  "momentum (applyCollisionImpulse v imp) = add (momentum v) imp
   \<and> speed (applyCollisionImpulse v imp) = 0
   \<and> Vehicle.position (applyCollisionImpulse v imp) = Vehicle.position v
   \<and> rotationQuaternion (applyCollisionImpulse v imp) = rotationQuaternion v
   \<and> Vehicle.velocity (applyCollisionImpulse v imp) = Vehicle.velocity v
   \<and> Vehicle.mass (applyCollisionImpulse v imp) = Vehicle.mass v
   \<and> steerAngle (applyCollisionImpulse v imp) = steerAngle v
   \<and> surfaceType (applyCollisionImpulse v imp) = surfaceType v
   \<and> groundHeight (applyCollisionImpulse v imp) = groundHeight v
   \<and> planetCenter (applyCollisionImpulse v imp) = planetCenter v
   \<and> planetRadius (applyCollisionImpulse v imp) = planetRadius v
   \<and> heightOffset (applyCollisionImpulse v imp) = heightOffset v"
  by (simp add: applyCollisionImpulse_def)

text \<open>
  C7.  With the handbrake engaged, one movement update with time step \<open>dt\<close> returns,
  and: it sets the speed to exactly 0 when \<open>|speed| \<le> 30 \<cdot> dt\<close>; it reduces \<open>|speed|\<close>
  by exactly \<open>30 \<cdot> dt\<close> when \<open>|speed| > 30 \<cdot> dt\<close> (for a time step \<open>dt \<ge> 0\<close>, which is what
  a frame supplies); it never changes the sign of the speed: a positive speed stays
  non-negative, a negative one non-positive, and 0 stays 0.  In particular, from speed
  10 with \<open>30 \<cdot> dt \<ge> 10\<close> the speed becomes exactly 0.
\<close>

theorem handbrake_spec:
  assumes "inputHandbrake v"
  shows "\<exists>m. updateMovement v dt = Some m
     \<and> (\<bar>speed v\<bar> \<le> 30 * dt \<longrightarrow> speed m = 0)
     \<and> (0 \<le> dt \<and> 30 * dt < \<bar>speed v\<bar> \<longrightarrow> \<bar>speed m\<bar> = \<bar>speed v\<bar> - 30 * dt)
     \<and> (0 < speed v \<longrightarrow> 0 \<le> speed m)
     \<and> (speed v < 0 \<longrightarrow> speed m \<le> 0)
     \<and> (speed v = 0 \<longrightarrow> speed m = 0)
     \<and> (speed v = 10 \<and> 10 \<le> 30 * dt \<longrightarrow> speed m = 0)"
  using assms by (auto simp: updateMovement_def Let_def sgn_real_def)

theorem handbrake_witness:
  "(\<exists>m. updateMovement (setInput driving_car 0 0 True) (1 / 2) = Some m \<and> speed m = 0)
   \<and> (\<exists>m. updateMovement (setInput driving_car 0 0 True) (1 / 10) = Some m \<and> \<bar>speed m\<bar> = 7)"
  using handbrake_spec [of "setInput driving_car 0 0 True" "1 / 2"]
    handbrake_spec [of "setInput driving_car 0 0 True" "1 / 10"]
  by (auto simp: setInput_def driving_car_def ground_car_def)




text \<open>
  C4, as the code has it.  In ground mode, a frame whose movement update returns also
  returns, with the steer angle of the movement update.  When the combined driving and
  momentum velocity has magnitude at least 0.1, the velocity is that combined velocity
  and the orientation is the previous one rotated about the world up axis by
  \<open>steerAngle \<cdot> dt\<close>, the rotation multiplied on the left.  When the magnitude is
  below 0.1, the velocity is snapped to zero and the frame ends there: position and
  orientation are both unchanged.
\<close>

theorem ground_steering:
  assumes "surfaceType v = ground" and "updateMovement v dt = Some m"
  shows "\<exists>r. update v dt = Some r \<and> steerAngle r = steerAngle m
     \<and> (if length_vec (frame_velocity m dt) < 0.1
         then Vehicle.velocity r = Zero \<and> Vehicle.position r = Vehicle.position v
            \<and> rotationQuaternion r = rotationQuaternion v
         else Vehicle.velocity r = frame_velocity m dt
            \<and> steered (rotationQuaternion v) (steerAngle m * dt) = Some (rotationQuaternion r)
            \<and> rotationQuaternion r =
                multiply (Quaternion 0 (sin (steerAngle m * dt / 2)) 0
                            (cos (steerAngle m * dt / 2)))
                         (rotationQuaternion v))"
proof -
  have keep: "surfaceType m = surfaceType v" "rotationQuaternion m = rotationQuaternion v"
    "Vehicle.position m = Vehicle.position v"
    using updateMovement_shape [OF assms(2)] by auto
  show ?thesis
    using assms keep
    by (simp add: update_def updatePosition_def updatePositionGround_cases steered_eq)
qed

theorem ground_steering_witness:
  "\<exists>r. update (setInput driving_car 0 1 False) (1 / 2) = Some r
     \<and> steerAngle r = 10
     \<and> steered (rotationQuaternion driving_car) (10 * (1 / 2)) = Some (rotationQuaternion r)"
proof -
  let ?v = "setInput driving_car 0 1 False"
  let ?m = "?v\<lparr>speed := 10, steerAngle := 10\<rparr>"
  have m: "updateMovement ?v (1 / 2) = Some ?m"
    by (simp add: updateMovement_def Math_pow_def setInput_def driving_car_def
        ground_car_def Let_def)
  have g: "surfaceType ?v = ground"
    by (simp add: setInput_def driving_car_def ground_car_def)
  have fv: "frame_velocity ?m (1 / 2) = Vector3 0 0 10"
    by (simp add: frame_velocity_def setInput_def driving_car_def ground_car_def Identity_def
        applyMomentumFriction_Zero momentumToVelocity_def) (simp add: Zero_def)
  show ?thesis
    using ground_steering [OF g m]
    by (simp add: fv) (auto simp: setInput_def driving_car_def ground_car_def)
qed

text \<open>
  C4 as stated fails: a car at speed 1, steering, whose momentum velocity cancels its
  driving velocity has a steer angle of 1 and a combined velocity of zero; the frame
  snaps the velocity to zero and returns at once, so the orientation is not rotated by
  \<open>steerAngle \<cdot> dt = 1 / 2\<close>.
\<close>

theorem ground_steering_counterexample:
  "map_option steerAngle (step_frame pushed_car (0, 1, False, 1 / 2)) = Some 1
   \<and> map_option Vehicle.velocity (step_frame pushed_car (0, 1, False, 1 / 2)) = Some Zero
   \<and> map_option rotationQuaternion (step_frame pushed_car (0, 1, False, 1 / 2))
       = Some (rotationQuaternion pushed_car)
   \<and> steered (rotationQuaternion pushed_car) (1 * (1 / 2)) \<noteq> Some (rotationQuaternion pushed_car)"
proof -
  let ?v = "setInput pushed_car 0 1 False"
  let ?m = "?v\<lparr>speed := 1, steerAngle := 1\<rparr>"
  have m: "updateMovement ?v (1 / 2) = Some ?m"
    by (simp add: updateMovement_def Math_pow_def setInput_def pushed_car_def
        ground_car_def Let_def)
  have fr: "applyMomentumFriction default_physics (Vector3 0 0 (- 1250)) (1 / 2)
      = Vector3 0 0 (- 1000)"
    by (simp add: applyMomentumFriction_def default_physics_def Let_def)
  have fv: "frame_velocity ?m (1 / 2) = Zero"
    by (simp add: frame_velocity_def setInput_def pushed_car_def ground_car_def Identity_def
        fr momentumToVelocity_def Zero_def)
  have s: "0 < sin (1 / 4 :: real)"
    by (rule sin_gt_zero_02) simp_all
  have "steered (rotationQuaternion pushed_car) (1 * (1 / 2)) \<noteq> Some (rotationQuaternion pushed_car)"
    using s by (simp add: steered_eq pushed_car_def ground_car_def Identity_def)
  moreover have "step_frame pushed_car (0, 1, False, 1 / 2)
      = Some (?m\<lparr>momentum := Vector3 0 0 (- 1000), Vehicle.velocity := Zero\<rparr>)"
    using m fv
    by (simp add: update_def updatePosition_def updatePositionGround_cases length_vec_Zero)
       (simp add: setInput_def pushed_car_def ground_car_def fr)
  ultimately show ?thesis
    by (simp add: setInput_def pushed_car_def ground_car_def)
qed

text \<open>
  On every run of frames that stays within finite numbers, the planet mode keeps the
  distance to the planet's centre within \<open>1e-3\<close> of \<open>planetRadius + heightOffset\<close>: the
  movement rotates the position about the centre by a unit quaternion.
\<close>

lemma run_frames_on_sphere:
  assumes "surfaceType v = planet" and "on_sphere v" and "run_frames v fs = Some v'"
  shows "on_sphere v'"
  using assms
proof (induction fs arbitrary: v)
  case Nil
  then show ?case by simp
next
  case (Cons f fs)
  from Cons.prems(3) obtain v1 where s: "step_frame v f = Some v1"
    and t: "run_frames v1 fs = Some v'"
    by (auto split: option.splits)
  from step_frame_on_sphere [OF s Cons.prems(1,2)] Cons.IH [OF _ _ t]
  show ?case by blast
qed

lemma run_frames_on_sphere_example:
  "surfaceType planet_car = planet \<and> on_sphere planet_car
   \<and> (\<exists>v'. run_frames planet_car [(1, 0, False, 1)] = Some v' \<and> speed v' = 10 \<and> on_sphere v')"
proof -
  let ?i = "setInput planet_car 1 0 False"
  let ?m = "?i\<lparr>speed := 10, steerAngle := 0\<rparr>"
  have pl: "surfaceType planet_car = planet"
    by (simp add: planet_car_def)
  have on: "on_sphere planet_car"
    by (simp add: on_sphere_def planet_car_def ground_car_def Distance_def Zero_def sqrt_100)
  have m: "updateMovement ?i 1 = Some ?m"
    by (simp add: updateMovement_def Math_pow_def setInput_def planet_car_def
        ground_car_def Let_def)
  have ax: "movement_axis ?m = Vector3 1 0 0"
    by (simp add: movement_axis_def setInput_def planet_car_def ground_car_def Identity_def
        Zero_def normalize_vec_def sqrt_100 Let_def)
  have "\<exists>r. updatePositionPlanet ?m 1 = Some r"
    by (rule updatePositionPlanet_defined)
       (simp_all add: ax, simp_all add: setInput_def planet_car_def ground_car_def Identity_def)
  then obtain r where r: "updatePositionPlanet ?m 1 = Some r"
    by blast
  have sp: "speed r = 10"
    using updatePositionPlanet_shape [OF r] by auto
  have run: "run_frames planet_car [(1, 0, False, 1)] = Some r"
    using m r by (simp add: update_def updatePosition_def) (simp add: setInput_def planet_car_def)
  from run_frames_on_sphere [OF pl on run] pl on run sp show ?thesis
    by simp
qed

text \<open>
  C1 fails on the code.  A car on a planet of radius 10 stands at \<open>(0, 0, 10)\<close>, at the
  required distance, with the identity orientation; the frame accelerates for one
  second.  The forward axis is along the surface normal, so its projection onto the
  tangent plane is the zero vector, and so is the rotation axis of the movement;
  \<open>Quaternion.RotationAxis\<close> divides by the length of that axis.  No guard precedes the
  division: the frame does not end with a finite position.  In the source the
  quaternion is NaN, the rotated position is NaN, and the test of the correction step
  that follows (\<open>Math.abs (currentDistance - targetDistance) > 0.001\<close>) is false on NaN,
  so the position stays NaN.  The division of \<open>speed \<cdot> deltaTime\<close> by \<open>planetRadius\<close> is
  unguarded in the same way: a car created at the centre of its planet has a measured
  radius of 0, and its first driving frame fails likewise.
\<close>

theorem planet_frame_not_finite:
  "surfaceType pole_car = planet \<and> on_sphere pole_car
   \<and> run_frames pole_car [(1, 0, False, 1)] = None
   \<and> surfaceType centre_car = planet \<and> on_sphere centre_car
   \<and> run_frames centre_car [(1, 0, False, 1)] = None"
proof -
  let ?i = "setInput pole_car 1 0 False"
  let ?m = "?i\<lparr>speed := 10, steerAngle := 0\<rparr>"
  let ?j = "setInput centre_car 1 0 False"
  let ?n = "?j\<lparr>speed := 10, steerAngle := 0\<rparr>"
  have on: "on_sphere pole_car"
    by (simp add: on_sphere_def pole_car_def ground_car_def Distance_def Zero_def sqrt_100)
  have m: "updateMovement ?i 1 = Some ?m"
    by (simp add: updateMovement_def Math_pow_def setInput_def pole_car_def
        ground_car_def Let_def)
  have fv: "frame_velocity ?m 1 = Vector3 0 0 10"
    by (simp add: frame_velocity_def setInput_def pole_car_def ground_car_def Identity_def
        applyMomentumFriction_Zero momentumToVelocity_def) (simp add: Zero_def)
  have ax: "movement_axis ?m = Vector3 0 0 0"
    by (simp add: movement_axis_def setInput_def pole_car_def ground_car_def Identity_def
        Zero_def normalize_vec_def sqrt_100 Let_def)
  have "updatePositionPlanet ?m 1 = None"
    by (rule updatePositionPlanet_zero_axis) (simp_all add: fv ax sqrt_100)
  then have pole: "run_frames pole_car [(1, 0, False, 1)] = None"
    using m by (simp add: update_def updatePosition_def) (simp add: setInput_def pole_car_def)
  have on': "on_sphere centre_car"
    by (simp add: on_sphere_def centre_car_def ground_car_def Distance_def Zero_def)
  have n: "updateMovement ?j 1 = Some ?n"
    by (simp add: updateMovement_def Math_pow_def setInput_def centre_car_def
        ground_car_def Let_def)
  have fv': "frame_velocity ?n 1 = Vector3 0 0 10"
    by (simp add: frame_velocity_def setInput_def centre_car_def ground_car_def Identity_def
        applyMomentumFriction_Zero momentumToVelocity_def) (simp add: Zero_def)
  have "updatePositionPlanet ?n 1 = None"
    by (rule updatePositionPlanet_zero_radius)
       (simp_all add: fv' sqrt_100, simp add: setInput_def centre_car_def ground_car_def)
  then have "run_frames centre_car [(1, 0, False, 1)] = None"
    using n by (simp add: update_def updatePosition_def) (simp add: setInput_def centre_car_def)
  then show ?thesis
    using on on' pole by (simp add: pole_car_def centre_car_def)
qed

end
